theory Spec2Isabelle
  imports Main "HOL-Library.Multiset"
begin

section \<open>Strings\<close>

text \<open>
  A Python \<open>str\<close> is modelled as a \<open>string\<close>; a \<open>char\<close> stands for a code point
  below 256, so \<open>length\<close> counts what Python's \<open>len\<close> counts on such text.
  \<open>lower\<close> is \<open>str.lower()\<close> on that range: the letters A-Z and the Latin-1
  capitals (0xC0-0xDE without the multiplication sign 0xD7) move up by 32.
\<close>

definition lower_char :: "char \<Rightarrow> char" where
  "lower_char c =
     (let n = (of_char c :: nat)
      in if (65 \<le> n \<and> n \<le> 90) \<or> (192 \<le> n \<and> n \<le> 214) \<or> (216 \<le> n \<and> n \<le> 222)
         then char_of (n + 32) else c)"

definition lower :: "string \<Rightarrow> string" where
  "lower s = map lower_char s"

text \<open>
  \<open>str.isspace()\<close> on one code point below 256: tab to carriage return, the four
  separators 0x1C-0x1F, the space, NEL (0x85) and the no-break space (0xA0).
\<close>

definition isspace :: "char \<Rightarrow> bool" where
  "isspace c =
     (let n = (of_char c :: nat)
      in (9 \<le> n \<and> n \<le> 13) \<or> (28 \<le> n \<and> n \<le> 32) \<or> n = 133 \<or> n = 160)"

text \<open>
  \<open>str.split()\<close> without arguments: the maximal runs of non-whitespace, in order.
  \<open>split_ws w s\<close> scans \<open>s\<close> with the token \<open>w\<close> read so far.
\<close>

fun split_ws :: "string \<Rightarrow> string \<Rightarrow> string list" where
  "split_ws w [] = (if w = [] then [] else [w])"
| "split_ws w (c # cs) =
     (if isspace c then (if w = [] then split_ws [] cs else w # split_ws [] cs)
      else split_ws (w @ [c]) cs)"

definition split :: "string \<Rightarrow> string list" where
  "split s = split_ws [] s"

text \<open>\<open>kw in text\<close>: \<open>kw\<close> occurs in \<open>text\<close> as a contiguous substring.\<close>

definition startswith :: "string \<Rightarrow> string \<Rightarrow> bool" where
  "startswith s kw = (take (length kw) s = kw)"

fun str_in :: "string \<Rightarrow> string \<Rightarrow> bool" where
  "str_in kw [] = (kw = [])"
| "str_in kw (c # cs) = (startswith (c # cs) kw \<or> str_in kw cs)"

text \<open>\<open>sep.join(xs)\<close>.\<close>

fun join :: "string \<Rightarrow> string list \<Rightarrow> string" where
  "join sep [] = []"
| "join sep [x] = x"
| "join sep (x # y # ys) = x @ sep @ join sep (y # ys)"

section \<open>Controls and findings\<close>

text \<open>
  A control is a JSON object; a key that may be absent is an \<open>option\<close>.
  \<open>control.get(k, d)\<close> is \<open>dict_get\<close>, \<open>control[k]\<close> is \<open>dict_item\<close>, which raises
  \<open>KeyError\<close> on an absent key.
\<close>

datatype error =
    KeyError string
  | JSONDecodeError
  | FileNotFoundError string

record control =
  c_id :: "string option"
  c_name :: "string option"
  c_description :: "string option"
  c_common_evidence :: "string list option"
  c_points_of_focus :: "string list option"

definition dict_get :: "'a option \<Rightarrow> 'a \<Rightarrow> 'a" where
  "dict_get field dflt = (case field of None \<Rightarrow> dflt | Some v \<Rightarrow> v)"

definition dict_item :: "string \<Rightarrow> 'a option \<Rightarrow> error + 'a" where
  "dict_item k field = (case field of None \<Rightarrow> Inl (KeyError k) | Some v \<Rightarrow> Inr v)"

record finding =
  control_id :: string
  control_name :: string
  control_description :: string
  common_evidence_types :: "string list"
  evidence_found :: "string list"
  preliminary_status :: string
  points_of_focus_count :: nat
  requires_ai_analysis :: bool

section \<open>Relevance matcher\<close>

text \<open>
  \<open>evidence_texts\<close> is a Python dict from file name to extracted text, kept as an
  association list in insertion order (the order \<open>items()\<close> yields).
\<close>

type_synonym evidence_texts = "(string \<times> string) list"

text \<open>
  \<open>for ev in common_evidence: control_keywords.extend(ev.lower().split())\<close>
\<close>

definition control_keywords :: "control \<Rightarrow> string list" where
  "control_keywords c =
     concat (map (\<lambda>ev. split (lower ev)) (dict_get (c_common_evidence c) []))"

text \<open>\<open>sum(1 for kw in control_keywords if kw in text_lower)\<close>\<close>

definition keyword_matches :: "string list \<Rightarrow> string \<Rightarrow> nat" where
  "keyword_matches kws txt = length (filter (\<lambda>kw. str_in kw (lower txt)) kws)"

definition matched_evidence :: "string list \<Rightarrow> evidence_texts \<Rightarrow> string list" where
  "matched_evidence kws ets =
     map fst (filter (\<lambda>(filename, txt). keyword_matches kws txt > 2) ets)"

definition status_of :: "string list \<Rightarrow> string" where
  "status_of matched =
     (if length matched \<ge> 2 then ''potential_compliant''
      else if length matched = 1 then ''potential_partial''
      else ''potential_gap'')"

text \<open>
  The returned dict is built in the order of its keys, so a control without \<open>id\<close>
  raises \<open>KeyError('id')\<close> before \<open>name\<close> and \<open>description\<close> are read.
\<close>

definition match_evidence_to_control :: "control \<Rightarrow> evidence_texts \<Rightarrow> error + finding" where
  "match_evidence_to_control c ets =
     (let common_evidence = dict_get (c_common_evidence c) [];
          matched = matched_evidence (control_keywords c) ets;
          status = status_of matched
      in case dict_item ''id'' (c_id c) of Inl e \<Rightarrow> Inl e | Inr cid \<Rightarrow>
         (case dict_item ''name'' (c_name c) of Inl e \<Rightarrow> Inl e | Inr cname \<Rightarrow>
         (case dict_item ''description'' (c_description c) of Inl e \<Rightarrow> Inl e | Inr cdesc \<Rightarrow>
            Inr \<lparr> control_id = cid,
                  control_name = cname,
                  control_description = take 500 cdesc,
                  common_evidence_types = common_evidence,
                  evidence_found = matched,
                  preliminary_status = status,
                  points_of_focus_count = length (dict_get (c_points_of_focus c) []),
                  requires_ai_analysis = True \<rparr>)))"

section \<open>Evidence catalog\<close>

text \<open>
  One entry of the evidence directory, with what the file system and the document
  libraries answer for it. A field is \<open>None\<close> where the call raises:
  \<open>ent_read_text\<close> is \<open>read_text(errors="ignore")\<close>; \<open>ent_pdf_pages\<close> is the
  result of \<open>extract_text()\<close> on each page of \<open>PdfReader(f).pages\<close> (itself
  \<open>None\<close> for a page without text); \<open>ent_docx_paragraphs\<close> is the text of each
  paragraph of \<open>Document(path)\<close>; \<open>ent_xlsx_sheets\<close> is, for each worksheet, its
  rows of cell values. A cell value is seen through its truth value and its
  \<open>str()\<close>, the two things the extractor asks of it.
\<close>

record cell =
  cell_truthy :: bool
  cell_str :: string

record dir_entry =
  ent_name :: string
  ent_path :: string
  ent_is_file :: bool
  ent_size :: nat
  ent_read_text :: "string option"
  ent_pdf_pages :: "string option list option"
  ent_docx_paragraphs :: "string list option"
  ent_xlsx_sheets :: "cell list list list option"

record evidence_file =
  ef_name :: string
  ef_path :: string
  ef_type :: string
  ef_size :: nat

text \<open>\<open>s.rfind(c)\<close>: the last index of \<open>c\<close>, \<open>None\<close> for Python's -1.\<close>

definition rfind :: "char \<Rightarrow> string \<Rightarrow> nat option" where
  "rfind c s =
     (case filter (\<lambda>i. s ! i = c) (rev [0..<length s]) of [] \<Rightarrow> None | i # _ \<Rightarrow> Some i)"

text \<open>
  \<open>Path.suffix\<close> of a file name: from the last dot on, when that dot is neither the
  first nor the last character (\<open>0 < i < len(name) - 1\<close>); the empty string otherwise.
\<close>

definition suffix :: "string \<Rightarrow> string" where
  "suffix name =
     (case rfind (CHR ''.'') name of
        None \<Rightarrow> []
      | Some i \<Rightarrow> if 0 < i \<and> i + 1 < length name then drop i name else [])"

definition lstrip :: "char \<Rightarrow> string \<Rightarrow> string" where
  "lstrip c s = dropWhile (\<lambda>x. x = c) s"

definition catalog_entry :: "dir_entry \<Rightarrow> evidence_file" where
  "catalog_entry e =
     \<lparr> ef_name = ent_name e,
       ef_path = ent_path e,
       ef_type = lstrip (CHR ''.'') (lower (suffix (ent_name e))),
       ef_size = ent_size e \<rparr>"

text \<open>
  \<open>load_evidence_files\<close>: \<open>iterdir()\<close> raises when the directory does not exist
  (the directory is \<open>None\<close>); otherwise the regular files are kept, in the order
  the file system yields them. The loop keeps the entry itself, which stands for
  the file that \<open>Path(ef["path"])\<close> opens later.
\<close>

definition load_evidence_files :: "string \<Rightarrow> dir_entry list option \<Rightarrow> error + dir_entry list" where
  "load_evidence_files evidence_dir listing =
     (case listing of
        None \<Rightarrow> Inl (FileNotFoundError evidence_dir)
      | Some entries \<Rightarrow> Inr (filter ent_is_file entries))"

section \<open>Text extractor\<close>

definition page_text :: "string option \<Rightarrow> string" where
  "page_text p = (case p of None \<Rightarrow> [] | Some t \<Rightarrow> t)"

definition row_text :: "cell list \<Rightarrow> string" where
  "row_text row = join '' '' (map cell_str (filter cell_truthy row)) @ [CHR 0x0A]"

definition sheet_text :: "cell list list \<Rightarrow> string" where
  "sheet_text sheet = concat (map row_text (take 50 sheet))"

text \<open>
  \<open>extract_text_from_file\<close>: \<open>None\<close> is Python's \<open>None\<close>, returned for an
  unrecognised suffix and when reading a text-like file raises (the outer handler only
  prints a warning). The three inner handlers return the placeholder.
\<close>

definition extract_text_from_file :: "dir_entry \<Rightarrow> string option" where
  "extract_text_from_file e =
     (let sfx = lower (suffix (ent_name e))
      in if sfx \<in> set [''.txt'', ''.md'', ''.csv'', ''.json''] then
           (case ent_read_text e of
              None \<Rightarrow> None
            | Some t \<Rightarrow> Some (take 5000 t))
         else if sfx = ''.pdf'' then
           (case ent_pdf_pages e of
              None \<Rightarrow> Some (''[PDF: '' @ ent_name e @ '']'')
            | Some pages \<Rightarrow> Some (take 5000 (concat (map page_text (take 5 pages)))))
         else if sfx = ''.docx'' then
           (case ent_docx_paragraphs e of
              None \<Rightarrow> Some (''[DOCX: '' @ ent_name e @ '']'')
            | Some paragraphs \<Rightarrow> Some (take 5000 (join [CHR 0x0A] paragraphs)))
         else if sfx \<in> set [''.xlsx'', ''.xls''] then
           (case ent_xlsx_sheets e of
              None \<Rightarrow> Some (''[XLSX: '' @ ent_name e @ '']'')
            | Some sheets \<Rightarrow> Some (take 5000 (concat (map sheet_text (take 2 sheets)))))
         else None)"

text \<open>
  \<open>d[k] = v\<close> on an insertion-ordered dict: an existing key keeps its place and
  takes the new value, a new key goes to the end.
\<close>

fun dict_set :: "('k \<times> 'v) list \<Rightarrow> 'k \<Rightarrow> 'v \<Rightarrow> ('k \<times> 'v) list" where
  "dict_set [] k v = [(k, v)]"
| "dict_set ((k', v') # d) k v =
     (if k' = k then (k, v) # d else (k', v') # dict_set d k v)"

text \<open>
  The extraction loop of \<open>main\<close>; \<open>if text:\<close> skips both \<open>None\<close> and the empty
  string.
\<close>

fun extract_loop :: "evidence_texts \<Rightarrow> dir_entry list \<Rightarrow> evidence_texts" where
  "extract_loop d [] = d"
| "extract_loop d (ef # efs) =
     (case extract_text_from_file ef of
        None \<Rightarrow> extract_loop d efs
      | Some t \<Rightarrow> if t \<noteq> [] then extract_loop (dict_set d (ent_name ef) t) efs
                  else extract_loop d efs)"

section \<open>Framework loader\<close>

record framework_info =
  fw_id :: "string option"
  fw_name :: "string option"
  fw_version :: "string option"

record framework_doc =
  doc_framework :: "framework_info option"
  doc_controls :: "control list option"

text \<open>
  What is at the framework path: nothing, a file that is not JSON, or a JSON
  object. \<open>load_framework\<close> is \<open>open\<close> followed by \<open>json.load\<close> and checks nothing
  else.
\<close>

datatype framework_file = Missing | Malformed | Document framework_doc

definition load_framework :: "string \<Rightarrow> framework_file \<Rightarrow> error + framework_doc" where
  "load_framework framework_path file =
     (case file of
        Missing \<Rightarrow> Inl (FileNotFoundError framework_path)
      | Malformed \<Rightarrow> Inl JSONDecodeError
      | Document d \<Rightarrow> Inr d)"

section \<open>Assessment aggregator\<close>

record framework_summary =
  fs_id :: string
  fs_name :: string
  fs_version :: string

record summary =
  total_controls :: nat
  potential_compliant :: nat
  potential_partial :: nat
  potential_gap :: nat

record assessment_result =
  assessment_id :: string
  client_id :: string
  framework :: framework_summary
  assessment_type :: string
  timestamp :: string
  evidence_files :: "evidence_file list"
  preliminary_summary :: summary
  findings :: "finding list"
  advisory_note :: string

record cli_args =
  arg_client_id :: string
  arg_framework :: string
  arg_evidence_dir :: string
  arg_assessment_type :: string
  arg_output :: string

text \<open>
  The world one run sees: the file at the framework path, the listing of the
  evidence directory (\<open>None\<close> when there is no such directory), and the two clock
  readings already formatted (\<open>%Y%m%d%H%M%S\<close> local time, ISO-8601 UTC).
\<close>

record world =
  w_framework_file :: framework_file
  w_evidence_dir :: "dir_entry list option"
  w_now :: string
  w_utc_now :: string

text \<open>What a run does to the outside, in order.\<close>

datatype event =
    LoadFramework
  | ListEvidenceDir
  | ExtractText string
  | WriteOutput string assessment_result

text \<open>
  \<open>for control in controls: findings.append(match_evidence_to_control(...))\<close>; the
  first control that raises ends the loop and the run.
\<close>

fun match_loop :: "control list \<Rightarrow> evidence_texts \<Rightarrow> error + finding list" where
  "match_loop [] ets = Inr []"
| "match_loop (c # cs) ets =
     (case match_evidence_to_control c ets of
        Inl e \<Rightarrow> Inl e
      | Inr f \<Rightarrow> (case match_loop cs ets of Inl e \<Rightarrow> Inl e | Inr fs \<Rightarrow> Inr (f # fs)))"

text \<open>\<open>sum(1 for f in findings if f["preliminary_status"] == s)\<close>\<close>

definition count_status :: "string \<Rightarrow> finding list \<Rightarrow> nat" where
  "count_status s fs = length (filter (\<lambda>f. preliminary_status f = s) fs)"

text \<open>
  The \<open>result\<close> dict. Its entries are evaluated in order, so
  \<open>framework['framework']['id']\<close> in the assessment id is the first read of the
  framework identity, and it happens here, after extraction and matching.
\<close>

definition build_result ::
  "world \<Rightarrow> cli_args \<Rightarrow> framework_doc \<Rightarrow> control list \<Rightarrow> dir_entry list \<Rightarrow> finding list
     \<Rightarrow> error + assessment_result" where
  "build_result w a fw controls files fs =
     (case dict_item ''framework'' (doc_framework fw) of Inl e \<Rightarrow> Inl e | Inr info \<Rightarrow>
     (case dict_item ''id'' (fw_id info) of Inl e \<Rightarrow> Inl e | Inr fid \<Rightarrow>
     (case dict_item ''name'' (fw_name info) of Inl e \<Rightarrow> Inl e | Inr fname \<Rightarrow>
     (case dict_item ''version'' (fw_version info) of Inl e \<Rightarrow> Inl e | Inr fversion \<Rightarrow>
        Inr \<lparr> assessment_id = arg_client_id a @ ''-'' @ fid @ ''-'' @ w_now w,
              client_id = arg_client_id a,
              framework = \<lparr> fs_id = fid, fs_name = fname, fs_version = fversion \<rparr>,
              assessment_type = arg_assessment_type a,
              timestamp = w_utc_now w,
              evidence_files = map catalog_entry files,
              preliminary_summary =
                \<lparr> total_controls = length controls,
                  potential_compliant = count_status ''potential_compliant'' fs,
                  potential_partial = count_status ''potential_partial'' fs,
                  potential_gap = count_status ''potential_gap'' fs \<rparr>,
              findings = fs,
              advisory_note =
                ''Preliminary assessment - requires AI consensus analysis for final determination'' \<rparr>))))"

text \<open>
  \<open>main\<close> returns the events of the run and how it ended: \<open>Inl\<close> the exception
  that ended it, \<open>Inr\<close> the result it wrote to the output path.
\<close>

definition main :: "world \<Rightarrow> cli_args \<Rightarrow> event list \<times> (error + assessment_result)" where
  "main w a =
     (case load_framework (arg_framework a) (w_framework_file w) of
        Inl e \<Rightarrow> ([LoadFramework], Inl e)
      | Inr fw \<Rightarrow>
          (let controls = dict_get (doc_controls fw) []
           in case load_evidence_files (arg_evidence_dir a) (w_evidence_dir w) of
                Inl e \<Rightarrow> ([LoadFramework, ListEvidenceDir], Inl e)
              | Inr files \<Rightarrow>
                  (let ets = extract_loop [] files;
                       trace = [LoadFramework, ListEvidenceDir] @ map (\<lambda>ef. ExtractText (ent_name ef)) files
                   in case match_loop controls ets of
                        Inl e \<Rightarrow> (trace, Inl e)
                      | Inr fs \<Rightarrow>
                          (case build_result w a fw controls files fs of
                             Inl e \<Rightarrow> (trace, Inl e)
                           | Inr result \<Rightarrow> (trace @ [WriteOutput (arg_output a) result], Inr result)))))"

section \<open>The occurrence count as claim C2 words it\<close>

text \<open>
  Claim C2 counts every occurrence of a keyword token in the text as a hit of its
  own. \<open>count_occurrences kw s\<close> is the number of positions of \<open>s\<close> at which
  \<open>kw\<close> starts; \<open>keyword_occurrences_claimed\<close> adds these up over the keyword
  list. The code computes \<open>keyword_matches\<close> instead.
\<close>

fun count_occurrences :: "string \<Rightarrow> string \<Rightarrow> nat" where
  "count_occurrences kw [] = 0"
| "count_occurrences kw (c # cs) =
     (if startswith (c # cs) kw then 1 else 0) + count_occurrences kw cs"

definition keyword_occurrences_claimed :: "string list \<Rightarrow> string \<Rightarrow> nat" where
  "keyword_occurrences_claimed kws txt =
     sum_list (map (\<lambda>kw. count_occurrences kw (lower txt)) kws)"

section \<open>Concrete inputs\<close>

text \<open>
  The control of the spec's scenarios, two controls that differ only in a repeated
  label word, and a small evidence directory: a policy text, an empty text file, a
  PDF that cannot be parsed and an image.
\<close>

definition labelled_control :: "string list \<Rightarrow> control" where
  "labelled_control labels =
     \<lparr> c_id = Some ''CC6.1'',
       c_name = Some ''Logical access'',
       c_description = Some ''Access to systems is restricted to authorised users'',
       c_common_evidence = Some labels,
       c_points_of_focus = Some [''Identifies users'', ''Restricts access''] \<rparr>"

definition scenario_control :: control where
  "scenario_control = labelled_control [''Access Control Policy'']"

definition policy_text :: string where
  "policy_text = ''Access control policy review document, access, control''"

definition file_entry :: "string \<Rightarrow> string option \<Rightarrow> dir_entry" where
  "file_entry name txt =
     \<lparr> ent_name = name,
       ent_path = ''evidence/'' @ name,
       ent_is_file = True,
       ent_size = length (dict_get txt []),
       ent_read_text = txt,
       ent_pdf_pages = None,
       ent_docx_paragraphs = None,
       ent_xlsx_sheets = None \<rparr>"

definition policy_file :: dir_entry where
  "policy_file = file_entry ''policy.txt'' (Some policy_text)"

definition empty_file :: dir_entry where
  "empty_file = file_entry ''empty.txt'' (Some [])"

definition broken_pdf :: dir_entry where
  "broken_pdf = file_entry ''scan.pdf'' None"

definition image_file :: dir_entry where
  "image_file = file_entry ''logo.png'' None"

definition soc2_info :: framework_info where
  "soc2_info = \<lparr> fw_id = Some ''soc2'', fw_name = Some ''SOC 2'', fw_version = Some ''2017'' \<rparr>"

definition example_world :: "framework_file \<Rightarrow> dir_entry list option \<Rightarrow> world" where
  "example_world file listing =
     \<lparr> w_framework_file = file,
       w_evidence_dir = listing,
       w_now = ''20240101120000'',
       w_utc_now = ''2024-01-01T12:00:00+00:00'' \<rparr>"

definition soc2_doc :: framework_doc where
  "soc2_doc = \<lparr> doc_framework = Some soc2_info, doc_controls = Some [scenario_control] \<rparr>"



definition example_args :: cli_args where
  "example_args =
     \<lparr> arg_client_id = ''acme'',
       arg_framework = ''frameworks/soc2.json'',
       arg_evidence_dir = ''evidence'',
       arg_assessment_type = ''full'',
       arg_output = ''out.json'' \<rparr>"

definition example_entries :: "dir_entry list" where
  "example_entries = [policy_file, empty_file, broken_pdf, image_file]"

text \<open>What the run on \<open>soc2_doc\<close> and \<open>example_entries\<close> is expected to write.\<close>

definition example_finding :: finding where
  "example_finding =
     \<lparr> control_id = ''CC6.1'',
       control_name = ''Logical access'',
       control_description = ''Access to systems is restricted to authorised users'',
       common_evidence_types = [''Access Control Policy''],
       evidence_found = [''policy.txt''],
       preliminary_status = ''potential_partial'',
       points_of_focus_count = 2,
       requires_ai_analysis = True \<rparr>"

definition example_result :: assessment_result where
  "example_result =
     \<lparr> assessment_id = ''acme-soc2-20240101120000'',
       client_id = ''acme'',
       framework = \<lparr> fs_id = ''soc2'', fs_name = ''SOC 2'', fs_version = ''2017'' \<rparr>,
       assessment_type = ''full'',
       timestamp = ''2024-01-01T12:00:00+00:00'',
       evidence_files =
         [\<lparr> ef_name = ''policy.txt'', ef_path = ''evidence/policy.txt'', ef_type = ''txt'', ef_size = 54 \<rparr>,
          \<lparr> ef_name = ''empty.txt'', ef_path = ''evidence/empty.txt'', ef_type = ''txt'', ef_size = 0 \<rparr>,
          \<lparr> ef_name = ''scan.pdf'', ef_path = ''evidence/scan.pdf'', ef_type = ''pdf'', ef_size = 0 \<rparr>,
          \<lparr> ef_name = ''logo.png'', ef_path = ''evidence/logo.png'', ef_type = ''png'', ef_size = 0 \<rparr>],
       preliminary_summary =
         \<lparr> total_controls = 1, potential_compliant = 0, potential_partial = 1, potential_gap = 0 \<rparr>,
       findings = [example_finding],
       advisory_note =
         ''Preliminary assessment - requires AI consensus analysis for final determination'' \<rparr>"

text \<open>
  A framework with three controls whose ids are not in alphabetical order, and a
  directory whose files give them three different statuses: two files match the
  first control, one matches the second, none the third.
\<close>

definition control_with :: "string \<Rightarrow> string list \<Rightarrow> control" where
  "control_with cid labels =
     \<lparr> c_id = Some cid,
       c_name = Some ''Control'',
       c_description = Some ''Description'',
       c_common_evidence = Some labels,
       c_points_of_focus = None \<rparr>"

definition mixed_controls :: "control list" where
  "mixed_controls =
     [control_with ''B.2'' [''Access Control Policy''],
      control_with ''A.1'' [''Backup Restore Logs''],
      control_with ''C.3'' []]"

definition mixed_doc :: framework_doc where
  "mixed_doc = \<lparr> doc_framework = Some soc2_info, doc_controls = Some mixed_controls \<rparr>"

definition notes_file :: dir_entry where
  "notes_file = file_entry ''notes.md'' (Some ''Policy on access and change control'')"

definition backup_file :: dir_entry where
  "backup_file = file_entry ''backup.csv'' (Some ''date,backup,restore,logs'')"

definition mixed_entries :: "dir_entry list" where
  "mixed_entries = [backup_file, policy_file, notes_file]"

definition mixed_findings :: "finding list" where
  "mixed_findings =
     [\<lparr> control_id = ''B.2'', control_name = ''Control'', control_description = ''Description'',
        common_evidence_types = [''Access Control Policy''],
        evidence_found = [''policy.txt'', ''notes.md''],
        preliminary_status = ''potential_compliant'',
        points_of_focus_count = 0, requires_ai_analysis = True \<rparr>,
      \<lparr> control_id = ''A.1'', control_name = ''Control'', control_description = ''Description'',
        common_evidence_types = [''Backup Restore Logs''],
        evidence_found = [''backup.csv''],
        preliminary_status = ''potential_partial'',
        points_of_focus_count = 0, requires_ai_analysis = True \<rparr>,
      \<lparr> control_id = ''C.3'', control_name = ''Control'', control_description = ''Description'',
        common_evidence_types = [],
        evidence_found = [],
        preliminary_status = ''potential_gap'',
        points_of_focus_count = 0, requires_ai_analysis = True \<rparr>]"

definition mixed_result :: assessment_result where
  "mixed_result =
     example_result
       \<lparr> evidence_files := map catalog_entry mixed_entries,
         preliminary_summary :=
           \<lparr> total_controls = 3, potential_compliant = 1, potential_partial = 1,
             potential_gap = 1 \<rparr>,
         findings := mixed_findings \<rparr>"

section \<open>Facts about the string operations\<close>

lemma split_ws_tokens:
  "w = [] \<or> (\<forall>c \<in> set w. \<not> isspace c) \<Longrightarrow> t \<in> set (split_ws w s)
     \<Longrightarrow> t \<noteq> [] \<and> (\<forall>c \<in> set t. \<not> isspace c)"
proof (induction s arbitrary: w)
  case Nil
  then show ?case by (auto split: if_splits)
next
  case (Cons a s)
  show ?case
  proof (cases "isspace a")
    case True
    with Cons.prems have "t = w \<and> w \<noteq> [] \<or> t \<in> set (split_ws [] s)"
      by (auto split: if_splits)
    then show ?thesis
    proof
      assume "t = w \<and> w \<noteq> []"
      with Cons.prems(1) show ?thesis by auto
    next
      assume "t \<in> set (split_ws [] s)"
      then show ?thesis using Cons.IH [of "[]"] by simp
    qed
  next
    case False
    with Cons.prems have "t \<in> set (split_ws (w @ [a]) s)" by simp
    moreover from False Cons.prems(1)
    have "w @ [a] = [] \<or> (\<forall>c \<in> set (w @ [a]). \<not> isspace c)" by auto
    ultimately show ?thesis using Cons.IH [of "w @ [a]"] by blast
  qed
qed

lemma split_tokens: "t \<in> set (split s) \<Longrightarrow> t \<noteq> [] \<and> (\<forall>c \<in> set t. \<not> isspace c)"
  unfolding split_def using split_ws_tokens [of "[]" t s] by simp

lemma concat_split_ws: "concat (split_ws w s) = w @ filter (\<lambda>c. \<not> isspace c) s"
  by (induction s arbitrary: w) auto

lemma concat_split: "concat (split s) = filter (\<lambda>c. \<not> isspace c) s"
  by (simp add: split_def concat_split_ws)

lemma split_ws_token_then_space:
  "\<forall>c \<in> set t. \<not> isspace c \<Longrightarrow> isspace d
     \<Longrightarrow> split_ws w (t @ d # s) = (if w @ t = [] then split_ws [] s else (w @ t) # split_ws [] s)"
  by (induction t arbitrary: w) auto

lemma split_ws_token_end:
  "\<forall>c \<in> set t. \<not> isspace c \<Longrightarrow> split_ws w t = (if w @ t = [] then [] else [w @ t])"
  by (induction t arbitrary: w) auto

text \<open>
  The four equations that fix \<open>split\<close>: leading whitespace is skipped, a token ends at
  the next whitespace or at the end of the string.
\<close>

lemma split_Nil: "split [] = []"
  by (simp add: split_def)

lemma split_space: "isspace d \<Longrightarrow> split (d # s) = split s"
  by (simp add: split_def)

lemma split_token:
  "t \<noteq> [] \<Longrightarrow> \<forall>c \<in> set t. \<not> isspace c \<Longrightarrow> isspace d \<Longrightarrow> split (t @ d # s) = t # split s"
  by (simp add: split_def split_ws_token_then_space)

lemma split_last_token: "t \<noteq> [] \<Longrightarrow> \<forall>c \<in> set t. \<not> isspace c \<Longrightarrow> split t = [t]"
  by (simp add: split_def split_ws_token_end)

lemma startswith_iff: "startswith s kw \<longleftrightarrow> (\<exists>r. s = kw @ r)"
  unfolding startswith_def
  by (metis append_eq_conv_conj append_take_drop_id)

lemma str_in_iff: "str_in kw s \<longleftrightarrow> (\<exists>p r. s = p @ kw @ r)"
proof (induction s)
  case Nil
  then show ?case by auto
next
  case (Cons a s)
  show ?case
  proof
    assume "str_in kw (a # s)"
    then consider "startswith (a # s) kw" | "str_in kw s" by auto
    then show "\<exists>p r. a # s = p @ kw @ r"
    proof cases
      case 1
      then obtain r where "a # s = kw @ r" by (auto simp: startswith_iff)
      then have "a # s = [] @ kw @ r" by simp
      then show ?thesis by blast
    next
      case 2
      with Cons.IH obtain p r where "s = p @ kw @ r" by blast
      then have "a # s = (a # p) @ kw @ r" by simp
      then show ?thesis by blast
    qed
  next
    assume "\<exists>p r. a # s = p @ kw @ r"
    then obtain p r where e: "a # s = p @ kw @ r" by blast
    show "str_in kw (a # s)"
    proof (cases p)
      case Nil
      with e have "startswith (a # s) kw" by (auto simp: startswith_iff)
      then show ?thesis by simp
    next
      case (Cons b q)
      with e have "s = q @ kw @ r" by simp
      with Cons.IH have "str_in kw s" by blast
      then show ?thesis by simp
    qed
  qed
qed

section \<open>Facts about the relevance matcher\<close>

lemma keyword_matches_append:
  "keyword_matches (ks @ ks') txt = keyword_matches ks txt + keyword_matches ks' txt"
  by (simp add: keyword_matches_def)

lemma keyword_matches_Cons:
  "keyword_matches (k # ks) txt = (if str_in k (lower txt) then 1 else 0) + keyword_matches ks txt"
  by (simp add: keyword_matches_def)

lemma keyword_matches_le: "keyword_matches ks txt \<le> length ks"
  by (simp add: keyword_matches_def)

lemma control_keywords_labels:
  "control_keywords (c\<lparr>c_common_evidence := Some labels\<rparr>) = concat (map (\<lambda>ev. split (lower ev)) labels)"
  by (simp add: control_keywords_def dict_get_def)

lemma match_Inr_fields:
  assumes "match_evidence_to_control c ets = Inr f"
  shows "evidence_found f = matched_evidence (control_keywords c) ets"
    and "preliminary_status f = status_of (matched_evidence (control_keywords c) ets)"
    and "c_id c = Some (control_id f)"
  using assms
  by (auto simp: match_evidence_to_control_def dict_item_def Let_def split: option.splits)

lemma match_total:
  assumes "c_id c = Some i" "c_name c = Some n" "c_description c = Some d"
  shows "match_evidence_to_control c ets =
     Inr \<lparr> control_id = i, control_name = n, control_description = take 500 d,
           common_evidence_types = dict_get (c_common_evidence c) [],
           evidence_found = matched_evidence (control_keywords c) ets,
           preliminary_status = status_of (matched_evidence (control_keywords c) ets),
           points_of_focus_count = length (dict_get (c_points_of_focus c) []),
           requires_ai_analysis = True \<rparr>"
  using assms by (simp add: match_evidence_to_control_def dict_item_def Let_def)


lemma set_matched_evidence:
  "fn \<in> set (matched_evidence kws ets)
     \<longleftrightarrow> (\<exists>txt. (fn, txt) \<in> set ets \<and> 2 < keyword_matches kws txt)"
  by (force simp: matched_evidence_def)

lemma matched_evidence_no_keywords: "matched_evidence [] ets = []"
  by (simp add: matched_evidence_def keyword_matches_def)

section \<open>The claims about the relevance matcher\<close>

text \<open>
  Claim C1. Whatever the control and the extracted texts, the finding's
  \<open>evidence_found\<close> is the list of matched files and its \<open>preliminary_status\<close>
  depends on the length of that list only: none gives \<open>potential_gap\<close>, exactly one
  \<open>potential_partial\<close>, two or more \<open>potential_compliant\<close>.
\<close>

theorem status_by_matched_count:
  assumes "match_evidence_to_control c ets = Inr f"
  shows "evidence_found f = matched_evidence (control_keywords c) ets
       \<and> (length (evidence_found f) = 0 \<longrightarrow> preliminary_status f = ''potential_gap'')
       \<and> (length (evidence_found f) = 1 \<longrightarrow> preliminary_status f = ''potential_partial'')
       \<and> (length (evidence_found f) \<ge> 2 \<longrightarrow> preliminary_status f = ''potential_compliant'')"
  using match_Inr_fields(1,2) [OF assms] by (simp add: status_of_def)

theorem status_by_matched_count_witness:
  "match_evidence_to_control scenario_control [(''policy.txt'', policy_text)] =
     Inr \<lparr> control_id = ''CC6.1'', control_name = ''Logical access'',
           control_description = ''Access to systems is restricted to authorised users'',
           common_evidence_types = [''Access Control Policy''],
           evidence_found = [''policy.txt''],
           preliminary_status = ''potential_partial'',
           points_of_focus_count = 2, requires_ai_analysis = True \<rparr>
   \<and> matched_evidence (control_keywords scenario_control) [(''policy.txt'', policy_text)] = [''policy.txt'']"
proof -
  have run: "match_evidence_to_control scenario_control [(''policy.txt'', policy_text)] =
     Inr \<lparr> control_id = ''CC6.1'', control_name = ''Logical access'',
           control_description = ''Access to systems is restricted to authorised users'',
           common_evidence_types = [''Access Control Policy''],
           evidence_found = [''policy.txt''],
           preliminary_status = ''potential_partial'',
           points_of_focus_count = 2, requires_ai_analysis = True \<rparr>"
    by code_simp
  from status_by_matched_count [OF run] show ?thesis using run by simp
qed

text \<open>
  Claim C2, as stated, fails: a keyword that occurs three times in a text is one hit,
  not three. With the single keyword \<open>policy\<close> the text \<open>policy policy policy\<close>
  has three occurrences, yet the file is not matched.
\<close>

theorem repeated_occurrences_counterexample:
  "keyword_occurrences_claimed (control_keywords (labelled_control [''Policy''])) ''policy policy policy'' = 3
   \<and> keyword_matches (control_keywords (labelled_control [''Policy''])) ''policy policy policy'' = 1
   \<and> match_evidence_to_control (labelled_control [''Policy'']) [(''notes.txt'', ''policy policy policy'')] =
       Inr \<lparr> control_id = ''CC6.1'', control_name = ''Logical access'',
             control_description = ''Access to systems is restricted to authorised users'',
             common_evidence_types = [''Policy''],
             evidence_found = [],
             preliminary_status = ''potential_gap'',
             points_of_focus_count = 2, requires_ai_analysis = True \<rparr>"
  by code_simp

text \<open>
  Claim C2, amended. A file is in \<open>evidence_found\<close> exactly when the number of entries
  of the keyword list that occur as a substring of its lower-cased text is greater
  than 2. Every entry of the list counts at most once per file, however often it
  occurs in the text, so the count never exceeds the length of the keyword list.
\<close>

theorem matched_iff_keyword_matches:
  assumes "match_evidence_to_control c ets = Inr f"
  shows "(fn \<in> set (evidence_found f)
            \<longleftrightarrow> (\<exists>txt. (fn, txt) \<in> set ets \<and> 2 < keyword_matches (control_keywords c) txt))
       \<and> keyword_matches kws txt = length (filter (\<lambda>kw. \<exists>p r. lower txt = p @ kw @ r) kws)
       \<and> keyword_matches kws txt \<le> length kws"
proof -
  have "fn \<in> set (evidence_found f)
          \<longleftrightarrow> (\<exists>txt. (fn, txt) \<in> set ets \<and> 2 < keyword_matches (control_keywords c) txt)"
    using match_Inr_fields(1) [OF assms] by (simp add: set_matched_evidence)
  moreover have "keyword_matches kws txt = length (filter (\<lambda>kw. \<exists>p r. lower txt = p @ kw @ r) kws)"
    by (simp add: keyword_matches_def str_in_iff)
  ultimately show ?thesis by (simp add: keyword_matches_le)
qed

theorem matched_iff_keyword_matches_witness:
  "match_evidence_to_control scenario_control [(''policy.txt'', policy_text)] =
     Inr \<lparr> control_id = ''CC6.1'', control_name = ''Logical access'',
           control_description = ''Access to systems is restricted to authorised users'',
           common_evidence_types = [''Access Control Policy''],
           evidence_found = [''policy.txt''],
           preliminary_status = ''potential_partial'',
           points_of_focus_count = 2, requires_ai_analysis = True \<rparr>
   \<and> (\<exists>txt. (''policy.txt'', txt) \<in> set [(''policy.txt'', policy_text)]
          \<and> 2 < keyword_matches (control_keywords scenario_control) txt)
   \<and> keyword_matches (control_keywords scenario_control) policy_text = 3"
proof -
  have run: "match_evidence_to_control scenario_control [(''policy.txt'', policy_text)] =
     Inr \<lparr> control_id = ''CC6.1'', control_name = ''Logical access'',
           control_description = ''Access to systems is restricted to authorised users'',
           common_evidence_types = [''Access Control Policy''],
           evidence_found = [''policy.txt''],
           preliminary_status = ''potential_partial'',
           points_of_focus_count = 2, requires_ai_analysis = True \<rparr>"
    by code_simp
  have score: "keyword_matches (control_keywords scenario_control) policy_text = 3"
    by code_simp
  from matched_iff_keyword_matches [where fn = "''policy.txt''", OF run, THEN conjunct1]
  have "\<exists>txt. (''policy.txt'', txt) \<in> set [(''policy.txt'', policy_text)]
          \<and> 2 < keyword_matches (control_keywords scenario_control) txt"
    by simp
  with run score show ?thesis by blast
qed

text \<open>
  Claim C5. A control whose common-evidence list is empty (or absent, which
  \<open>control.get("common_evidence", [])\<close> reads as empty) has no keywords, so whatever
  the extracted texts are, its finding has an empty \<open>evidence_found\<close> and the status
  \<open>potential_gap\<close>; and the finding exists whenever the control has its \<open>id\<close>,
  \<open>name\<close> and \<open>description\<close>.
\<close>

theorem empty_common_evidence_gap:
  assumes "dict_get (c_common_evidence c) [] = []"
  shows "(\<forall>f. match_evidence_to_control c ets = Inr f
            \<longrightarrow> evidence_found f = [] \<and> preliminary_status f = ''potential_gap'')
       \<and> (c_id c \<noteq> None \<and> c_name c \<noteq> None \<and> c_description c \<noteq> None
            \<longrightarrow> (\<exists>f. match_evidence_to_control c ets = Inr f))"
proof -
  from assms have kws: "control_keywords c = []"
    by (simp add: control_keywords_def)
  have "evidence_found f = [] \<and> preliminary_status f = ''potential_gap''"
    if "match_evidence_to_control c ets = Inr f" for f
    using match_Inr_fields(1,2) [OF that] kws
    by (simp add: matched_evidence_no_keywords status_of_def)
  moreover have "\<exists>f. match_evidence_to_control c ets = Inr f"
    if "c_id c \<noteq> None \<and> c_name c \<noteq> None \<and> c_description c \<noteq> None"
    using that match_total [of c _ _ _ ets] by auto
  ultimately show ?thesis by blast
qed

theorem empty_common_evidence_gap_witness:
  "dict_get (c_common_evidence (labelled_control [])) [] = []
   \<and> match_evidence_to_control (labelled_control []) [(''policy.txt'', policy_text)] =
       Inr \<lparr> control_id = ''CC6.1'', control_name = ''Logical access'',
             control_description = ''Access to systems is restricted to authorised users'',
             common_evidence_types = [],
             evidence_found = [],
             preliminary_status = ''potential_gap'',
             points_of_focus_count = 2, requires_ai_analysis = True \<rparr>"
proof -
  have h: "dict_get (c_common_evidence (labelled_control [])) [] = []"
    by (simp add: labelled_control_def dict_get_def)
  have fields: "c_id (labelled_control []) \<noteq> None \<and> c_name (labelled_control []) \<noteq> None
      \<and> c_description (labelled_control []) \<noteq> None"
    by (simp add: labelled_control_def)
  from empty_common_evidence_gap [OF h, of "[(''policy.txt'', policy_text)]"] fields
  obtain f where f: "match_evidence_to_control (labelled_control []) [(''policy.txt'', policy_text)] = Inr f"
    and "evidence_found f = []" and "preliminary_status f = ''potential_gap''"
    by blast
  have "match_evidence_to_control (labelled_control []) [(''policy.txt'', policy_text)] =
       Inr \<lparr> control_id = ''CC6.1'', control_name = ''Logical access'',
             control_description = ''Access to systems is restricted to authorised users'',
             common_evidence_types = [],
             evidence_found = [],
             preliminary_status = ''potential_gap'',
             points_of_focus_count = 2, requires_ai_analysis = True \<rparr>"
    by code_simp
  with h show ?thesis by simp
qed

text \<open>
  Claim C6, as stated, fails: the keyword list keeps duplicates. The labels
  \<open>Policy\<close> and \<open>Policy Document\<close> give the token \<open>policy\<close> twice, the label
  \<open>Policy Document\<close> alone gives it once; the text \<open>policy document\<close> scores 3
  under the first control, and is matched, and 2 under the second, and is not.
\<close>

theorem duplicate_tokens_counterexample:
  "control_keywords (labelled_control [''Policy'', ''Policy Document'']) = [''policy'', ''policy'', ''document'']
   \<and> control_keywords (labelled_control [''Policy Document'']) = [''policy'', ''document'']
   \<and> keyword_matches (control_keywords (labelled_control [''Policy'', ''Policy Document''])) ''policy document'' = 3
   \<and> keyword_matches (control_keywords (labelled_control [''Policy Document''])) ''policy document'' = 2
   \<and> matched_evidence (control_keywords (labelled_control [''Policy'', ''Policy Document'']))
        [(''notes.txt'', ''policy document'')] = [''notes.txt'']
   \<and> matched_evidence (control_keywords (labelled_control [''Policy Document'']))
        [(''notes.txt'', ''policy document'')] = []"
  by code_simp

text \<open>
  Claim C6, amended. The keyword list is the concatenation, in label order, of the
  whitespace-separated tokens of each lower-cased label (each token non-empty and
  free of whitespace), duplicates kept. Duplicates do not collapse: a further copy
  of a token already in the list adds one to the score of every file whose
  lower-cased text contains it.
\<close>

theorem duplicate_tokens_count_separately:
  "control_keywords (c\<lparr>c_common_evidence := Some labels\<rparr>) = concat (map (\<lambda>ev. split (lower ev)) labels)
   \<and> (\<forall>t \<in> set (control_keywords c). t \<noteq> [] \<and> (\<forall>ch \<in> set t. \<not> isspace ch))
   \<and> (kw \<in> set kws \<and> str_in kw (lower tx)
        \<longrightarrow> keyword_matches (kw # kws) tx = keyword_matches kws tx + 1)"
proof -
  have "t \<noteq> [] \<and> (\<forall>ch \<in> set t. \<not> isspace ch)" if "t \<in> set (control_keywords c)" for t
    using that split_tokens by (auto simp: control_keywords_def)
  then show ?thesis
    by (simp add: control_keywords_labels keyword_matches_Cons)
qed

theorem duplicate_tokens_count_separately_witness:
  "''policy'' \<in> set [''policy'', ''document'']
   \<and> str_in ''policy'' (lower ''Policy document'')
   \<and> keyword_matches [''policy'', ''policy'', ''document''] ''Policy document'' =
       keyword_matches [''policy'', ''document''] ''Policy document'' + 1
   \<and> keyword_matches [''policy'', ''policy'', ''document''] ''Policy document'' = 3"
proof -
  have a: "''policy'' \<in> set [''policy'', ''document'']" by simp
  have b: "str_in ''policy'' (lower ''Policy document'')" by code_simp
  have c: "keyword_matches [''policy'', ''policy'', ''document''] ''Policy document'' = 3" by code_simp
  from duplicate_tokens_count_separately
         [where kw = "''policy''" and kws = "[''policy'', ''document'']" and tx = "''Policy document''"] a b c
  show ?thesis by simp
qed

section \<open>Facts about the text extractor\<close>

lemma extract_text_length:
  "length (ent_name e) \<le> 4992 \<Longrightarrow> extract_text_from_file e = Some t \<Longrightarrow> length t \<le> 5000"
  by (auto simp: extract_text_from_file_def Let_def split: if_splits option.splits)

lemma dict_set_entries: "(n, t) \<in> set (dict_set d k v) \<Longrightarrow> (n, t) \<in> set d \<or> (n, t) = (k, v)"
  by (induction d) (auto split: if_splits)

lemma extract_loop_entries:
  "(n, t) \<in> set (extract_loop d efs)
     \<Longrightarrow> (n, t) \<in> set d
         \<or> (\<exists>ef \<in> set efs. n = ent_name ef \<and> extract_text_from_file ef = Some t \<and> t \<noteq> [])"
proof (induction efs arbitrary: d)
  case Nil
  then show ?case by simp
next
  case (Cons ef efs)
  show ?case
  proof (cases "extract_text_from_file ef")
    case None
    with Cons.prems have "(n, t) \<in> set (extract_loop d efs)" by simp
    from Cons.IH [OF this] show ?thesis by auto
  next
    case (Some u)
    show ?thesis
    proof (cases "u = []")
      case True
      with Some Cons.prems have "(n, t) \<in> set (extract_loop d efs)" by simp
      from Cons.IH [OF this] show ?thesis by auto
    next
      case False
      with Some Cons.prems have "(n, t) \<in> set (extract_loop (dict_set d (ent_name ef) u) efs)"
        by simp
      from Cons.IH [OF this] Some False show ?thesis
        by (auto dest: dict_set_entries)
    qed
  qed
qed

section \<open>Facts about the run\<close>

lemma match_loop_all2:
  "match_loop cs ets = Inr fs \<longleftrightarrow> list_all2 (\<lambda>c f. match_evidence_to_control c ets = Inr f) cs fs"
proof (induction cs arbitrary: fs)
  case Nil
  then show ?case by auto
next
  case (Cons c cs)
  show ?case
  proof (cases "match_evidence_to_control c ets")
    case (Inl e)
    then show ?thesis by (auto simp: list_all2_Cons1)
  next
    case (Inr f)
    show ?thesis
    proof (cases "match_loop cs ets")
      case (Inl e)
      with Inr Cons.IH show ?thesis by (auto simp: list_all2_Cons1)
    next
      case fs': (Inr gs)
      with Inr Cons.IH show ?thesis by (auto simp: list_all2_Cons1)
    qed
  qed
qed


lemma match_loop_ids:
  "match_loop cs ets = Inr fs \<Longrightarrow> map (\<lambda>f. Some (control_id f)) fs = map c_id cs"
proof (induction cs arbitrary: fs)
  case Nil
  then show ?case by simp
next
  case (Cons c cs)
  then show ?case
    by (auto split: sum.splits dest: match_Inr_fields(3))
qed

lemma match_loop_other_texts:
  "match_loop cs ets = Inr fs
     \<Longrightarrow> \<exists>fs'. match_loop cs ets' = Inr fs' \<and> map control_id fs' = map control_id fs"
proof (induction cs arbitrary: fs)
  case Nil
  then show ?case by simp
next
  case (Cons c cs)
  from Cons.prems obtain f gs where f: "match_evidence_to_control c ets = Inr f"
    and gs: "match_loop cs ets = Inr gs" and fs: "fs = f # gs"
    by (auto split: sum.splits)
  from Cons.IH [OF gs] obtain gs' where gs': "match_loop cs ets' = Inr gs'"
    and ids: "map control_id gs' = map control_id gs" by blast
  from f obtain i n d where c: "c_id c = Some i" "c_name c = Some n" "c_description c = Some d"
    and fi: "control_id f = i"
    by (auto simp: match_evidence_to_control_def dict_item_def Let_def split: option.splits)
  from match_total [OF c, of ets'] obtain f' where
    f': "match_evidence_to_control c ets' = Inr f'" and "control_id f' = i"
    by simp
  with gs' ids fi fs show ?case by simp
qed

lemma status_of_cases:
  "status_of m = ''potential_compliant'' \<or> status_of m = ''potential_partial''
     \<or> status_of m = ''potential_gap''"
  by (simp add: status_of_def)

lemma match_loop_status:
  assumes "match_loop cs ets = Inr fs" and "f \<in> set fs"
  shows "preliminary_status f = ''potential_compliant'' \<or> preliminary_status f = ''potential_partial''
     \<or> preliminary_status f = ''potential_gap''"
proof -
  from assms obtain c where "match_evidence_to_control c ets = Inr f"
    by (auto simp: match_loop_all2 list_all2_conv_all_nth in_set_conv_nth)
  from match_Inr_fields(2) [OF this] show ?thesis
    using status_of_cases by simp
qed

lemma count_status_partition:
  assumes "\<forall>f \<in> set fs. preliminary_status f = ''potential_compliant''
             \<or> preliminary_status f = ''potential_partial'' \<or> preliminary_status f = ''potential_gap''"
  shows "count_status ''potential_compliant'' fs + count_status ''potential_partial'' fs
           + count_status ''potential_gap'' fs = length fs"
  using assms by (induction fs) (auto simp: count_status_def)

lemma build_result_error: "build_result w a fw cs files fs = Inl e \<Longrightarrow> \<exists>k. e = KeyError k"
  by (auto simp: build_result_def dict_item_def split: option.splits)

lemma build_result_Inr:
  assumes "build_result w a fw cs files fs = Inr r"
  shows "findings r = fs"
    and "preliminary_summary r =
           \<lparr> total_controls = length cs,
             potential_compliant = count_status ''potential_compliant'' fs,
             potential_partial = count_status ''potential_partial'' fs,
             potential_gap = count_status ''potential_gap'' fs \<rparr>"
  using assms by (auto simp: build_result_def dict_item_def split: option.splits)

lemma build_result_other_findings:
  "build_result w a fw cs files fs = Inr r \<Longrightarrow> \<exists>r'. build_result w' a fw cs files' fs' = Inr r' \<and> findings r' = fs'"
  by (auto simp: build_result_def dict_item_def split: option.splits)



lemma main_Document:
  assumes "w_framework_file w = Document d" and "w_evidence_dir w = Some entries"
  shows "main w a =
     (case match_loop (dict_get (doc_controls d) []) (extract_loop [] (filter ent_is_file entries)) of
        Inl e \<Rightarrow> ([LoadFramework, ListEvidenceDir]
                    @ map (\<lambda>ef. ExtractText (ent_name ef)) (filter ent_is_file entries), Inl e)
      | Inr fs \<Rightarrow>
          (case build_result w a d (dict_get (doc_controls d) []) (filter ent_is_file entries) fs of
             Inl e \<Rightarrow> ([LoadFramework, ListEvidenceDir]
                         @ map (\<lambda>ef. ExtractText (ent_name ef)) (filter ent_is_file entries), Inl e)
           | Inr result \<Rightarrow>
               ([LoadFramework, ListEvidenceDir]
                  @ map (\<lambda>ef. ExtractText (ent_name ef)) (filter ent_is_file entries)
                  @ [WriteOutput (arg_output a) result], Inr result)))"
  using assms
  by (simp add: main_def load_framework_def load_evidence_files_def Let_def split: sum.splits)

lemma main_not_Document:
  "w_framework_file w = Missing \<Longrightarrow> main w a = ([LoadFramework], Inl (FileNotFoundError (arg_framework a)))"
  "w_framework_file w = Malformed \<Longrightarrow> main w a = ([LoadFramework], Inl JSONDecodeError)"
  by (simp_all add: main_def load_framework_def)

lemma main_no_directory:
  "w_framework_file w = Document d \<Longrightarrow> w_evidence_dir w = None
     \<Longrightarrow> main w a = ([LoadFramework, ListEvidenceDir], Inl (FileNotFoundError (arg_evidence_dir a)))"
  by (simp add: main_def load_framework_def load_evidence_files_def Let_def)

lemma main_success:
  assumes "snd (main w a) = Inr r"
  shows "\<exists>d entries. w_framework_file w = Document d \<and> w_evidence_dir w = Some entries
     \<and> match_loop (dict_get (doc_controls d) []) (extract_loop [] (filter ent_is_file entries))
           = Inr (findings r)
     \<and> build_result w a d (dict_get (doc_controls d) []) (filter ent_is_file entries) (findings r)
           = Inr r
     \<and> fst (main w a) = [LoadFramework, ListEvidenceDir]
           @ map (\<lambda>ef. ExtractText (ent_name ef)) (filter ent_is_file entries)
           @ [WriteOutput (arg_output a) r]"
proof -
  from assms obtain d where d: "w_framework_file w = Document d"
    by (cases "w_framework_file w") (auto simp: main_not_Document)
  from assms d obtain entries where es: "w_evidence_dir w = Some entries"
    by (cases "w_evidence_dir w") (auto simp: main_no_directory)
  from assms obtain fs where fs: "match_loop (dict_get (doc_controls d) [])
       (extract_loop [] (filter ent_is_file entries)) = Inr fs"
    and r: "build_result w a d (dict_get (doc_controls d) []) (filter ent_is_file entries) fs = Inr r"
    unfolding main_Document [OF d es] by (auto split: sum.splits)
  have tr: "fst (main w a) = [LoadFramework, ListEvidenceDir]
           @ map (\<lambda>ef. ExtractText (ent_name ef)) (filter ent_is_file entries)
           @ [WriteOutput (arg_output a) r]"
    unfolding main_Document [OF d es] using fs r by simp
  from build_result_Inr(1) [OF r] fs r d es tr show ?thesis by auto
qed


section \<open>The run on the concrete inputs\<close>

lemma example_files: "filter ent_is_file example_entries = example_entries"
  by (simp add: example_entries_def policy_file_def empty_file_def broken_pdf_def image_file_def
      file_entry_def)

lemma example_trace:
  "map (\<lambda>ef. ExtractText (ent_name ef)) example_entries =
     [ExtractText ''policy.txt'', ExtractText ''empty.txt'', ExtractText ''scan.pdf'',
      ExtractText ''logo.png'']"
  by (simp add: example_entries_def policy_file_def empty_file_def broken_pdf_def image_file_def
      file_entry_def)

lemma example_texts:
  "extract_loop [] example_entries =
     [(''policy.txt'', policy_text), (''scan.pdf'', ''[PDF: scan.pdf]'')]"
  by code_simp

lemma example_findings:
  "match_loop [scenario_control] [(''policy.txt'', policy_text), (''scan.pdf'', ''[PDF: scan.pdf]'')] =
     Inr [example_finding]"
  by code_simp

lemma example_catalog:
  "map catalog_entry example_entries = evidence_files example_result"
  by code_simp

lemma example_counts:
  "count_status ''potential_compliant'' [example_finding] = 0"
  "count_status ''potential_partial'' [example_finding] = 1"
  "count_status ''potential_gap'' [example_finding] = 0"
  by (simp_all add: count_status_def example_finding_def)

lemma soc2_build:
  "build_result (example_world file listing) example_args soc2_doc [scenario_control]
     example_entries [example_finding] = Inr example_result"
  by (simp add: build_result_def dict_item_def soc2_doc_def soc2_info_def example_args_def
      example_world_def example_counts example_catalog example_result_def)

lemma soc2_run:
  "main (example_world (Document soc2_doc) (Some example_entries)) example_args =
     ([LoadFramework, ListEvidenceDir, ExtractText ''policy.txt'', ExtractText ''empty.txt'',
       ExtractText ''scan.pdf'', ExtractText ''logo.png'', WriteOutput ''out.json'' example_result],
      Inr example_result)"
proof -
  have doc: "w_framework_file (example_world (Document soc2_doc) (Some example_entries)) = Document soc2_doc"
    and dir: "w_evidence_dir (example_world (Document soc2_doc) (Some example_entries)) = Some example_entries"
    by (simp_all add: example_world_def)
  have cs: "dict_get (doc_controls soc2_doc) [] = [scenario_control]"
    by (simp add: soc2_doc_def dict_get_def)
  have out: "arg_output example_args = ''out.json''"
    by (simp add: example_args_def)
  show ?thesis
    unfolding main_Document [OF doc dir] cs example_files example_texts example_findings
      example_trace
    by (simp add: soc2_build out)
qed



lemma mixed_files: "filter ent_is_file mixed_entries = mixed_entries"
  by (simp add: mixed_entries_def policy_file_def notes_file_def backup_file_def file_entry_def)

lemma mixed_trace:
  "map (\<lambda>ef. ExtractText (ent_name ef)) mixed_entries =
     [ExtractText ''backup.csv'', ExtractText ''policy.txt'', ExtractText ''notes.md'']"
  by (simp add: mixed_entries_def policy_file_def notes_file_def backup_file_def file_entry_def)

lemma mixed_texts:
  "extract_loop [] mixed_entries =
     [(''backup.csv'', ''date,backup,restore,logs''), (''policy.txt'', policy_text),
      (''notes.md'', ''Policy on access and change control'')]"
  by code_simp

lemma mixed_match:
  "match_loop mixed_controls
     [(''backup.csv'', ''date,backup,restore,logs''), (''policy.txt'', policy_text),
      (''notes.md'', ''Policy on access and change control'')] = Inr mixed_findings"
  by code_simp

lemma mixed_build:
  "build_result (example_world fl listing) example_args mixed_doc mixed_controls
     mixed_entries mixed_findings = Inr mixed_result"
  by (simp add: build_result_def dict_item_def mixed_doc_def soc2_info_def example_args_def
      example_world_def count_status_def mixed_findings_def mixed_controls_def mixed_result_def
      example_result_def)

lemma mixed_run:
  "main (example_world (Document mixed_doc) (Some mixed_entries)) example_args =
     ([LoadFramework, ListEvidenceDir, ExtractText ''backup.csv'', ExtractText ''policy.txt'',
       ExtractText ''notes.md'', WriteOutput ''out.json'' mixed_result],
      Inr mixed_result)"
proof -
  have doc: "w_framework_file (example_world (Document mixed_doc) (Some mixed_entries)) = Document mixed_doc"
    and dir: "w_evidence_dir (example_world (Document mixed_doc) (Some mixed_entries)) = Some mixed_entries"
    by (simp_all add: example_world_def)
  have cs: "dict_get (doc_controls mixed_doc) [] = mixed_controls"
    by (simp add: mixed_doc_def dict_get_def)
  have out: "arg_output example_args = ''out.json''"
    by (simp add: example_args_def)
  show ?thesis
    unfolding main_Document [OF doc dir] cs mixed_files mixed_texts mixed_match mixed_trace
    by (simp add: mixed_build out)
qed

section \<open>The claims about extraction and the run\<close>

text \<open>
  Claim C4. No text that an evidence file contributes to the extracted-text mapping
  is longer than 5000 characters, whatever the file's size or content. Extracted
  text is cut with \<open>[:5000]\<close>; a placeholder is the file's name between a tag of at
  most seven characters and a bracket, and a directory entry's name is bounded by
  the file system (255 on the usual ones), far below the 4992 assumed here.
\<close>

theorem extracted_text_at_most_5000:
  assumes "\<forall>e \<in> set files. length (ent_name e) \<le> 4992"
  shows "(\<forall>e \<in> set files. \<forall>t. extract_text_from_file e = Some t \<longrightarrow> length t \<le> 5000)
       \<and> (\<forall>(n, t) \<in> set (extract_loop [] files). length t \<le> 5000)"
proof -
  have one: "length t \<le> 5000" if "e \<in> set files" "extract_text_from_file e = Some t" for e t
    using that assms extract_text_length by blast
  have "length t \<le> 5000" if "(n, t) \<in> set (extract_loop [] files)" for n t
    using extract_loop_entries [OF that] one by auto
  with one show ?thesis by blast
qed

theorem extracted_text_at_most_5000_witness:
  "map (\<lambda>e. length (ent_name e)) example_entries = [10, 9, 8, 8]
   \<and> extract_loop [] example_entries =
       [(''policy.txt'', policy_text), (''scan.pdf'', ''[PDF: scan.pdf]'')]
   \<and> length policy_text \<le> 5000 \<and> length ''[PDF: scan.pdf]'' \<le> 5000"
proof -
  have lens: "map (\<lambda>e. length (ent_name e)) example_entries = [10, 9, 8, 8]"
    by (simp add: example_entries_def policy_file_def empty_file_def broken_pdf_def
        image_file_def file_entry_def)
  have names: "\<forall>e \<in> set example_entries. length (ent_name e) \<le> 4992"
    by (simp add: example_entries_def policy_file_def empty_file_def broken_pdf_def
        image_file_def file_entry_def)
  from extracted_text_at_most_5000 [OF names]
  have "\<forall>(n, t) \<in> set (extract_loop [] example_entries). length t \<le> 5000"
    by (rule conjunct2)
  then have "length policy_text \<le> 5000 \<and> length ''[PDF: scan.pdf]'' \<le> 5000"
    by (simp add: example_texts)
  with lens example_texts show ?thesis by blast
qed

text \<open>
  Claim C9. An evidence file whose extraction succeeds with the empty string adds no
  entry to the extracted-text mapping (\<open>if text:\<close> skips it), so its name is in no
  finding's \<open>evidence_found\<close>. The names of the files of one directory are distinct.
\<close>

theorem empty_extraction_never_matched:
  assumes "w_evidence_dir w = Some entries"
    and "distinct (map ent_name (filter ent_is_file entries))"
    and "e \<in> set entries" and "ent_is_file e"
    and "extract_text_from_file e = Some []"
  shows "ent_name e \<notin> fst ` set (extract_loop [] (filter ent_is_file entries))
       \<and> (\<forall>r f. snd (main w a) = Inr r \<longrightarrow> f \<in> set (findings r)
              \<longrightarrow> ent_name e \<notin> set (evidence_found f))"
proof -
  let ?files = "filter ent_is_file entries"
  have e: "e \<in> set ?files" using assms(3,4) by simp
  have absent: "ent_name e \<notin> fst ` set (extract_loop [] ?files)"
  proof
    assume "ent_name e \<in> fst ` set (extract_loop [] ?files)"
    then obtain t where "(ent_name e, t) \<in> set (extract_loop [] ?files)" by auto
    from extract_loop_entries [OF this] obtain ef where ef: "ef \<in> set ?files"
      and name: "ent_name e = ent_name ef"
      and nonempty: "extract_text_from_file ef = Some t" "t \<noteq> []"
      by auto
    from assms(2) have "inj_on ent_name (set ?files)" by (simp add: distinct_map)
    with e ef name have "ef = e" by (auto dest: inj_onD)
    with nonempty assms(5) show False by simp
  qed
  have "ent_name e \<notin> set (evidence_found f)"
    if r: "snd (main w a) = Inr r" and f: "f \<in> set (findings r)" for r f
  proof -
    from main_success [OF r] obtain d entries' where "w_evidence_dir w = Some entries'"
      and loop: "match_loop (dict_get (doc_controls (d::framework_doc)) []) (extract_loop [] (filter ent_is_file entries'))
                   = Inr (findings r)"
      by blast
    with assms(1) have loop': "match_loop (dict_get (doc_controls d) []) (extract_loop [] ?files)
        = Inr (findings r)" by simp
    with f obtain c where "match_evidence_to_control c (extract_loop [] ?files) = Inr f"
      by (auto simp: match_loop_all2 list_all2_conv_all_nth in_set_conv_nth)
    from match_Inr_fields(1) [OF this]
    have "set (evidence_found f) \<subseteq> fst ` set (extract_loop [] ?files)"
      by (force simp: set_matched_evidence)
    with absent show ?thesis by blast
  qed
  with absent show ?thesis by blast
qed

theorem empty_extraction_never_matched_witness:
  "distinct (map ent_name (filter ent_is_file example_entries))
   \<and> empty_file \<in> set example_entries
   \<and> ent_is_file empty_file
   \<and> extract_text_from_file empty_file = Some []
   \<and> ent_name empty_file = ''empty.txt''
   \<and> ''empty.txt'' \<notin> fst ` set (extract_loop [] (filter ent_is_file example_entries))
   \<and> snd (main (example_world (Document soc2_doc) (Some example_entries)) example_args)
       = Inr example_result
   \<and> example_finding \<in> set (findings example_result)
   \<and> ''empty.txt'' \<notin> set (evidence_found example_finding)"
proof -
  let ?w = "example_world (Document soc2_doc) (Some example_entries)"
  have dir: "w_evidence_dir ?w = Some example_entries"
    by (simp add: example_world_def)
  have names: "distinct (map ent_name (filter ent_is_file example_entries))"
    by (simp add: example_entries_def policy_file_def empty_file_def broken_pdf_def
        image_file_def file_entry_def)
  have mem: "empty_file \<in> set example_entries"
    by (simp add: example_entries_def)
  have isf: "ent_is_file empty_file"
    by (simp add: empty_file_def file_entry_def)
  have ext: "extract_text_from_file empty_file = Some []"
    by code_simp
  have nm: "ent_name empty_file = ''empty.txt''"
    by (simp add: empty_file_def file_entry_def)
  have run: "snd (main ?w example_args) = Inr example_result"
    by (simp add: soc2_run)
  have f: "example_finding \<in> set (findings example_result)"
    by (simp add: example_result_def)
  from empty_extraction_never_matched [OF dir names mem isf ext, of example_args] nm run f
  have "''empty.txt'' \<notin> fst ` set (extract_loop [] (filter ent_is_file example_entries))
      \<and> ''empty.txt'' \<notin> set (evidence_found example_finding)"
    by auto
  with names mem isf ext nm run f show ?thesis by blast
qed

text \<open>
  Claim C10. In every result that a run produces, each of the three counts of the
  summary is the number of findings with that status, the three counts add up to
  \<open>total_controls\<close>, and \<open>total_controls\<close> is the number of findings: the counts
  partition the findings by status.
\<close>

theorem summary_counts_partition_findings:
  assumes "snd (main w a) = Inr r"
  shows "potential_compliant (preliminary_summary r)
           = length (filter (\<lambda>f. preliminary_status f = ''potential_compliant'') (findings r))
       \<and> potential_partial (preliminary_summary r)
           = length (filter (\<lambda>f. preliminary_status f = ''potential_partial'') (findings r))
       \<and> potential_gap (preliminary_summary r)
           = length (filter (\<lambda>f. preliminary_status f = ''potential_gap'') (findings r))
       \<and> potential_compliant (preliminary_summary r) + potential_partial (preliminary_summary r)
           + potential_gap (preliminary_summary r) = total_controls (preliminary_summary r)
       \<and> total_controls (preliminary_summary r) = length (findings r)"
proof -
  from main_success [OF assms] obtain d entries where
    loop: "match_loop (dict_get (doc_controls (d::framework_doc)) []) (extract_loop [] (filter ent_is_file entries))
             = Inr (findings r)"
    and res: "build_result w a d (dict_get (doc_controls d) []) (filter ent_is_file entries) (findings r)
             = Inr r"
    by blast
  from loop have len: "length (findings r) = length (dict_get (doc_controls d) [])"
    by (simp add: match_loop_all2 list_all2_lengthD)
  have total: "count_status ''potential_compliant'' (findings r)
          + count_status ''potential_partial'' (findings r)
          + count_status ''potential_gap'' (findings r) = length (findings r)"
    using match_loop_status [OF loop] by (intro count_status_partition) blast
  have tally: "count_status s (findings r)
      = length (filter (\<lambda>f. preliminary_status f = s) (findings r))" for s
    by (simp add: count_status_def)
  from build_result_Inr(2) [OF res]
  have "potential_compliant (preliminary_summary r) = count_status ''potential_compliant'' (findings r)"
    and "potential_partial (preliminary_summary r) = count_status ''potential_partial'' (findings r)"
    and "potential_gap (preliminary_summary r) = count_status ''potential_gap'' (findings r)"
    and "total_controls (preliminary_summary r) = length (dict_get (doc_controls d) [])"
    by simp_all
  with total len tally show ?thesis by simp
qed

theorem summary_counts_partition_findings_witness:
  "snd (main (example_world (Document mixed_doc) (Some mixed_entries)) example_args) = Inr mixed_result
   \<and> map preliminary_status (findings mixed_result)
       = [''potential_compliant'', ''potential_partial'', ''potential_gap'']
   \<and> preliminary_summary mixed_result
       = \<lparr> total_controls = 3, potential_compliant = 1, potential_partial = 1, potential_gap = 1 \<rparr>
   \<and> potential_compliant (preliminary_summary mixed_result)
       = length (filter (\<lambda>f. preliminary_status f = ''potential_compliant'') (findings mixed_result))
   \<and> potential_partial (preliminary_summary mixed_result)
       = length (filter (\<lambda>f. preliminary_status f = ''potential_partial'') (findings mixed_result))
   \<and> potential_gap (preliminary_summary mixed_result)
       = length (filter (\<lambda>f. preliminary_status f = ''potential_gap'') (findings mixed_result))
   \<and> total_controls (preliminary_summary mixed_result) = length (findings mixed_result)"
proof -
  have run: "snd (main (example_world (Document mixed_doc) (Some mixed_entries)) example_args)
      = Inr mixed_result"
    by (simp add: mixed_run)
  have statuses: "map preliminary_status (findings mixed_result)
       = [''potential_compliant'', ''potential_partial'', ''potential_gap'']"
    by (simp add: mixed_result_def mixed_findings_def)
  have counts: "preliminary_summary mixed_result
       = \<lparr> total_controls = 3, potential_compliant = 1, potential_partial = 1, potential_gap = 1 \<rparr>"
    by (simp add: mixed_result_def)
  from summary_counts_partition_findings [OF run] run statuses counts show ?thesis
    by blast
qed

text \<open>
  Claim C7. A run that succeeds has exactly one finding per control, in the order of
  the controls of the framework: the finding at each position is the one computed
  for the control at that position. Listing the evidence directory in another order
  gives a run that succeeds too, with the findings for the same controls in the same
  order.
\<close>

theorem findings_follow_control_order:
  assumes "w_framework_file w = Document d" and "w_evidence_dir w = Some entries"
    and "snd (main w a) = Inr r"
  shows "length (findings r) = length (dict_get (doc_controls d) [])
       \<and> map (\<lambda>f. Some (control_id f)) (findings r) = map c_id (dict_get (doc_controls d) [])
       \<and> list_all2 (\<lambda>c f. match_evidence_to_control c
                               (extract_loop [] (filter ent_is_file entries)) = Inr f)
            (dict_get (doc_controls d) []) (findings r)
       \<and> (\<forall>entries'. mset entries' = mset entries
            \<longrightarrow> (\<exists>r'. snd (main (w\<lparr>w_evidence_dir := Some entries'\<rparr>) a) = Inr r'
                   \<and> length (findings r') = length (findings r)
                   \<and> map control_id (findings r') = map control_id (findings r)))"
proof -
  let ?cs = "dict_get (doc_controls d) []"
  from main_success [OF assms(3)] assms(1,2)
  have loop: "match_loop ?cs (extract_loop [] (filter ent_is_file entries)) = Inr (findings r)"
    and res: "build_result w a d ?cs (filter ent_is_file entries) (findings r) = Inr r"
    by auto
  from loop have all2: "list_all2 (\<lambda>c f. match_evidence_to_control c
        (extract_loop [] (filter ent_is_file entries)) = Inr f) ?cs (findings r)"
    by (simp add: match_loop_all2)
  then have len: "length (findings r) = length ?cs"
    by (simp add: list_all2_lengthD)
  have other: "\<exists>r'. snd (main (w\<lparr>w_evidence_dir := Some entries'\<rparr>) a) = Inr r'
         \<and> length (findings r') = length (findings r)
         \<and> map control_id (findings r') = map control_id (findings r)" for entries'
  proof -
    let ?w = "w\<lparr>w_evidence_dir := Some entries'\<rparr>"
    have doc': "w_framework_file ?w = Document d" and dir': "w_evidence_dir ?w = Some entries'"
      using assms(1) by simp_all
    from match_loop_other_texts [OF loop] obtain fs' where
      loop': "match_loop ?cs (extract_loop [] (filter ent_is_file entries')) = Inr fs'"
      and ids: "map control_id fs' = map control_id (findings r)"
      by blast
    from build_result_other_findings [OF res] obtain r' where
      res': "build_result ?w a d ?cs (filter ent_is_file entries') fs' = Inr r'"
      and fs': "findings r' = fs'"
      by blast
    have "snd (main ?w a) = Inr r'"
      unfolding main_Document [OF doc' dir'] using loop' res' by simp
    moreover from ids have "length fs' = length (findings r)"
      by (metis length_map)
    ultimately show ?thesis using ids fs' by auto
  qed
  from len match_loop_ids [OF loop] all2 other show ?thesis by blast
qed

theorem findings_follow_control_order_witness:
  "snd (main (example_world (Document mixed_doc) (Some mixed_entries)) example_args) = Inr mixed_result
   \<and> map c_id (dict_get (doc_controls mixed_doc) []) = [Some ''B.2'', Some ''A.1'', Some ''C.3'']
   \<and> map control_id (findings mixed_result) = [''B.2'', ''A.1'', ''C.3'']
   \<and> length (findings mixed_result) = 3
   \<and> mset (rev mixed_entries) = mset mixed_entries
   \<and> (\<exists>r'. snd (main (example_world (Document mixed_doc) (Some (rev mixed_entries))) example_args)
              = Inr r'
          \<and> map control_id (findings r') = [''B.2'', ''A.1'', ''C.3''])"
proof -
  let ?w = "example_world (Document mixed_doc) (Some mixed_entries)"
  have doc: "w_framework_file ?w = Document mixed_doc"
    and dir: "w_evidence_dir ?w = Some mixed_entries"
    by (simp_all add: example_world_def)
  have run: "snd (main ?w example_args) = Inr mixed_result"
    by (simp add: mixed_run)
  have cs: "map c_id (dict_get (doc_controls mixed_doc) []) = [Some ''B.2'', Some ''A.1'', Some ''C.3'']"
    by (simp add: mixed_doc_def dict_get_def mixed_controls_def control_with_def)
  have perm: "mset (rev mixed_entries) = mset mixed_entries"
    by simp
  have upd: "?w\<lparr>w_evidence_dir := Some (rev mixed_entries)\<rparr>
      = example_world (Document mixed_doc) (Some (rev mixed_entries))"
    by (simp add: example_world_def)
  note order = findings_follow_control_order [OF doc dir run]
  from order cs have "map (\<lambda>f. Some (control_id f)) (findings mixed_result)
      = [Some ''B.2'', Some ''A.1'', Some ''C.3'']"
    by simp
  then have ids: "map control_id (findings mixed_result) = [''B.2'', ''A.1'', ''C.3'']"
    by (auto simp: map_eq_Cons_conv)
  from order cs have len: "length (findings mixed_result) = 3"
    by (metis length_map length_Cons list.size(3) numeral_3_eq_3)
  from order perm
  have "\<exists>r'. snd (main (?w\<lparr>w_evidence_dir := Some (rev mixed_entries)\<rparr>) example_args) = Inr r'
          \<and> length (findings r') = length (findings mixed_result)
          \<and> map control_id (findings r') = map control_id (findings mixed_result)"
    by blast
  with upd ids have "\<exists>r'. snd (main (example_world (Document mixed_doc) (Some (rev mixed_entries)))
        example_args) = Inr r' \<and> map control_id (findings r') = [''B.2'', ''A.1'', ''C.3'']"
    by auto
  with run cs ids len perm show ?thesis by blast
qed







end
